theory Spec2Isabelle
  imports Complex_Main "HOL-Library.Char_ord" "HOL-Library.List_Lexorder" "HOL-Library.Multiset"
begin

section \<open>JavaScript values and the typed record library\<close>

text \<open>
  The view state of \<^verbatim>\<open>src/browser/web-view.js\<close> is a \<^verbatim>\<open>Record\<close> of the
  typed-immutable library: every field has a declared type, and most have a declared
  default. The values a caller may hand to the record are JavaScript values. Numbers are
  modelled as reals (\<^verbatim>\<open>NaN\<close> and the infinities are left out), strings as
  \<^typ>\<open>string\<close>, and every object (an icon map, a metadata blob, an event) as a value of
  the parameter type \<open>'o\<close>.
\<close>

datatype 'o jsval = JUndefined | JNull | JBool bool | JNum real | JStr string | JObj 'o

datatype error = TypeError

text \<open>
  Modelled from the spec: the record library (typed-immutable, with the \<^verbatim>\<open>merge\<close>,
  \<^verbatim>\<open>update\<close> and \<^verbatim>\<open>remove\<close> it borrows from Immutable's \<^verbatim>\<open>Map\<close>) is not
  under src/. The spec says that a cleared field reverts to its default (the zoom reverts to
  1.0, a timestamp is -1 when unset). Reading a value for a field: \<^verbatim>\<open>undefined\<close>
  stands for the declared default; the value must then have the declared type, or the
  library throws a \<^verbatim>\<open>TypeError\<close>. A \<^verbatim>\<open>Maybe\<close> field reads both
  \<^verbatim>\<open>undefined\<close> and \<^verbatim>\<open>null\<close> as unset, and \<^verbatim>\<open>Any\<close> keeps every value.
\<close>

definition with_default :: "'o jsval \<Rightarrow> 'o jsval \<Rightarrow> 'o jsval" where
  "with_default d v = (case v of JUndefined \<Rightarrow> d | _ \<Rightarrow> v)"

definition parse_String :: "'o jsval \<Rightarrow> error + string" where
  "parse_String v = (case v of JStr x \<Rightarrow> Inr x | _ \<Rightarrow> Inl TypeError)"

definition parse_Number :: "'o jsval \<Rightarrow> error + real" where
  "parse_Number v = (case v of JNum x \<Rightarrow> Inr x | _ \<Rightarrow> Inl TypeError)"

definition parse_Boolean :: "'o jsval \<Rightarrow> error + bool" where
  "parse_Boolean v = (case v of JBool x \<Rightarrow> Inr x | _ \<Rightarrow> Inl TypeError)"

text \<open>\<^verbatim>\<open>String\<close> (no default: the default is \<^verbatim>\<open>undefined\<close>), \<^verbatim>\<open>String('')\<close>,
  \<^verbatim>\<open>Number(1)\<close>, \<^verbatim>\<open>Boolean(false)\<close>, \<^verbatim>\<open>Maybe(String)\<close> and \<^verbatim>\<open>Any\<close>.\<close>

definition T_String :: "'o jsval \<Rightarrow> 'o jsval \<Rightarrow> error + string" where
  "T_String d v = parse_String (with_default d v)"

definition T_Number :: "'o jsval \<Rightarrow> 'o jsval \<Rightarrow> error + real" where
  "T_Number d v = parse_Number (with_default d v)"

definition T_Boolean :: "'o jsval \<Rightarrow> 'o jsval \<Rightarrow> error + bool" where
  "T_Boolean d v = parse_Boolean (with_default d v)"

definition T_Maybe :: "('o jsval \<Rightarrow> error + 'a) \<Rightarrow> 'o jsval \<Rightarrow> error + 'a option" where
  "T_Maybe rd v =
     (case v of
        JUndefined \<Rightarrow> Inr None
      | JNull \<Rightarrow> Inr None
      | _ \<Rightarrow> (case rd v of Inl e \<Rightarrow> Inl e | Inr x \<Rightarrow> Inr (Some x)))"

definition T_Any :: "'o jsval \<Rightarrow> error + 'o jsval" where
  "T_Any v = Inr v"

text \<open>The library stores a value that was read, and throws the error of one that was not.\<close>

definition store :: "('a \<Rightarrow> 's) \<Rightarrow> error + 'a \<Rightarrow> error + 's" where
  "store put r = (case r of Inl e \<Rightarrow> Inl e | Inr x \<Rightarrow> Inr (put x))"


section \<open>The view state\<close>

text \<open>The record \<^verbatim>\<open>WebView\<close> (lines 25 to 75), field by field, in the order of the source.
  A \<^verbatim>\<open>Maybe(String)\<close> field is an \<^typ>\<open>string option\<close>: \<^term>\<open>None\<close> is the unset field.\<close>

record 'o WebView =
  id' :: string
  userInput :: string
  zoom :: real
  readyState :: "string option"
  isLoading :: bool
  isConnecting :: bool
  startLoadingTime :: real
  connectedTime :: real
  endLoadingTime :: real
  isFocused :: bool
  isActive :: bool
  isSelected :: bool
  isPinned :: bool
  uri :: "string option"
  title :: "string option"
  icons :: "'o jsval"
  meta :: "'o jsval"
  backgroundColor :: "string option"
  foregroundColor :: "string option"
  isDark :: bool
  securityState :: string
  securityExtendedValidation :: bool
  canGoBack :: bool
  canGoForward :: bool
  contentOverflows :: bool
  thumbnail :: "string option"

datatype field =
    F_id | F_userInput | F_zoom | F_readyState | F_isLoading | F_isConnecting
  | F_startLoadingTime | F_connectedTime | F_endLoadingTime
  | F_isFocused | F_isActive | F_isSelected | F_isPinned
  | F_uri | F_title | F_icons | F_meta
  | F_backgroundColor | F_foregroundColor | F_isDark
  | F_securityState | F_securityExtendedValidation
  | F_canGoBack | F_canGoForward | F_contentOverflows | F_thumbnail

text \<open>\<^verbatim>\<open>state.set(field, value)\<close>: the value is read at the field's declared type, with
  the field's declared default.\<close>

fun WebView_set :: "field \<Rightarrow> 'o jsval \<Rightarrow> 'o WebView \<Rightarrow> error + 'o WebView" where
  "WebView_set F_id v s = store (\<lambda>x. s\<lparr>id' := x\<rparr>) (T_String JUndefined v)"
| "WebView_set F_userInput v s = store (\<lambda>x. s\<lparr>userInput := x\<rparr>) (T_String (JStr '''') v)"
| "WebView_set F_zoom v s = store (\<lambda>x. s\<lparr>zoom := x\<rparr>) (T_Number (JNum 1) v)"
| "WebView_set F_readyState v s =
     store (\<lambda>x. s\<lparr>readyState := x\<rparr>) (T_Maybe (T_String JUndefined) v)"
| "WebView_set F_isLoading v s = store (\<lambda>x. s\<lparr>isLoading := x\<rparr>) (T_Boolean (JBool False) v)"
| "WebView_set F_isConnecting v s =
     store (\<lambda>x. s\<lparr>isConnecting := x\<rparr>) (T_Boolean (JBool False) v)"
| "WebView_set F_startLoadingTime v s =
     store (\<lambda>x. s\<lparr>startLoadingTime := x\<rparr>) (T_Number (JNum (- 1)) v)"
| "WebView_set F_connectedTime v s =
     store (\<lambda>x. s\<lparr>connectedTime := x\<rparr>) (T_Number (JNum (- 1)) v)"
| "WebView_set F_endLoadingTime v s =
     store (\<lambda>x. s\<lparr>endLoadingTime := x\<rparr>) (T_Number (JNum (- 1)) v)"
| "WebView_set F_isFocused v s = store (\<lambda>x. s\<lparr>isFocused := x\<rparr>) (T_Boolean (JBool False) v)"
| "WebView_set F_isActive v s = store (\<lambda>x. s\<lparr>isActive := x\<rparr>) (T_Boolean (JBool False) v)"
| "WebView_set F_isSelected v s = store (\<lambda>x. s\<lparr>isSelected := x\<rparr>) (T_Boolean (JBool False) v)"
| "WebView_set F_isPinned v s = store (\<lambda>x. s\<lparr>isPinned := x\<rparr>) (T_Boolean (JBool False) v)"
| "WebView_set F_uri v s = store (\<lambda>x. s\<lparr>uri := x\<rparr>) (T_Maybe (T_String JUndefined) v)"
| "WebView_set F_title v s = store (\<lambda>x. s\<lparr>title := x\<rparr>) (T_Maybe (T_String JUndefined) v)"
| "WebView_set F_icons v s = store (\<lambda>x. s\<lparr>icons := x\<rparr>) (T_Any v)"
| "WebView_set F_meta v s = store (\<lambda>x. s\<lparr>meta := x\<rparr>) (T_Any v)"
| "WebView_set F_backgroundColor v s =
     store (\<lambda>x. s\<lparr>backgroundColor := x\<rparr>) (T_Maybe (T_String JUndefined) v)"
| "WebView_set F_foregroundColor v s =
     store (\<lambda>x. s\<lparr>foregroundColor := x\<rparr>) (T_Maybe (T_String JUndefined) v)"
| "WebView_set F_isDark v s = store (\<lambda>x. s\<lparr>isDark := x\<rparr>) (T_Boolean (JBool False) v)"
| "WebView_set F_securityState v s =
     store (\<lambda>x. s\<lparr>securityState := x\<rparr>) (T_String (JStr ''insecure'') v)"
| "WebView_set F_securityExtendedValidation v s =
     store (\<lambda>x. s\<lparr>securityExtendedValidation := x\<rparr>) (T_Boolean (JBool False) v)"
| "WebView_set F_canGoBack v s = store (\<lambda>x. s\<lparr>canGoBack := x\<rparr>) (T_Boolean (JBool False) v)"
| "WebView_set F_canGoForward v s =
     store (\<lambda>x. s\<lparr>canGoForward := x\<rparr>) (T_Boolean (JBool False) v)"
| "WebView_set F_contentOverflows v s =
     store (\<lambda>x. s\<lparr>contentOverflows := x\<rparr>) (T_Boolean (JBool False) v)"
| "WebView_set F_thumbnail v s =
     store (\<lambda>x. s\<lparr>thumbnail := x\<rparr>) (T_Maybe (T_String JUndefined) v)"

text \<open>\<^verbatim>\<open>state.merge(delta)\<close> sets the keys of the object \<^verbatim>\<open>delta\<close> one after the
  other, in the order they were written; a key whose value is \<^verbatim>\<open>undefined\<close> is set
  like any other. \<^verbatim>\<open>state.remove(key)\<close> is \<^verbatim>\<open>state.set(key, undefined)\<close>.\<close>

fun merge :: "(field \<times> 'o jsval) list \<Rightarrow> 'o WebView \<Rightarrow> error + 'o WebView" where
  "merge [] s = Inr s"
| "merge ((k, v) # delta) s =
     (case WebView_set k v s of Inl e \<Rightarrow> Inl e | Inr s' \<Rightarrow> merge delta s')"

definition remove :: "field \<Rightarrow> 'o WebView \<Rightarrow> error + 'o WebView" where
  "remove k s = WebView_set k JUndefined s"

text \<open>Line 79: \<^verbatim>\<open>patch\<close>.\<close>

definition patch :: "(field \<times> 'o jsval) list \<Rightarrow> 'o WebView \<Rightarrow> error + 'o WebView" where
  "patch delta state = merge delta state"


subsection \<open>Transitions\<close>

text \<open>\<^verbatim>\<open>WebView.persistent\<close> (lines 85 to 104).\<close>

definition WebView_persistent :: "'o WebView \<Rightarrow> error + 'o WebView" where
  "WebView_persistent =
     patch [(F_thumbnail, JUndefined),
            (F_readyState, JUndefined),
            (F_isLoading, JUndefined),
            (F_isConnecting, JUndefined),
            (F_startLoadingTime, JUndefined),
            (F_connectedTime, JUndefined),
            (F_endLoadingTime, JUndefined),
            (F_backgroundColor, JUndefined),
            (F_foregroundColor, JUndefined),
            (F_isDark, JUndefined),
            (F_title, JUndefined),
            (F_securityState, JUndefined),
            (F_securityExtendedValidation, JUndefined),
            (F_canGoBack, JUndefined),
            (F_canGoForward, JUndefined)]"

text \<open>
  The zoom (lines 124 to 134). JavaScript numbers are binary floating point, so a sum is
  rounded to a representable number: \<open>rnd\<close> is the rounding, and the theorems below hold
  for every function \<open>rnd\<close>. \<^verbatim>\<open>state.update('zoom', f)\<close> sets the field to \<^verbatim>\<open>f\<close> of
  its value.
\<close>

definition ZOOM_MIN :: real where
  "ZOOM_MIN = 1 / 2"

definition ZOOM_MAX :: real where
  "ZOOM_MAX = 2"

definition ZOOM_STEP :: "(real \<Rightarrow> real) \<Rightarrow> real" where
  "ZOOM_STEP rnd = rnd (1 / 10)"

definition zoomIn :: "(real \<Rightarrow> real) \<Rightarrow> real \<Rightarrow> real" where
  "zoomIn rnd v = min ZOOM_MAX (rnd (v + ZOOM_STEP rnd))"

definition zoomOut :: "(real \<Rightarrow> real) \<Rightarrow> real \<Rightarrow> real" where
  "zoomOut rnd v = max ZOOM_MIN (rnd (v - ZOOM_STEP rnd))"

definition WebView_zoomIn :: "(real \<Rightarrow> real) \<Rightarrow> 'o WebView \<Rightarrow> error + 'o WebView" where
  "WebView_zoomIn rnd state = WebView_set F_zoom (JNum (zoomIn rnd (zoom state))) state"

definition WebView_zoomOut :: "(real \<Rightarrow> real) \<Rightarrow> 'o WebView \<Rightarrow> error + 'o WebView" where
  "WebView_zoomOut rnd state = WebView_set F_zoom (JNum (zoomOut rnd (zoom state))) state"

definition WebView_zoomReset :: "'o WebView \<Rightarrow> error + 'o WebView" where
  "WebView_zoomReset state = remove F_zoom state"

text \<open>
  Loading (lines 141 to 163). \<^verbatim>\<open>performance.now()\<close> reads the clock; the reading
  \<open>now\<close> is an argument of the model. \<^verbatim>\<open>changeProgress\<close> takes an argument the source
  names \<^verbatim>\<open>connectedTime\<close>; the event handler passes the progress event.
\<close>

definition WebView_startLoad :: "real \<Rightarrow> 'o WebView \<Rightarrow> error + 'o WebView" where
  "WebView_startLoad now state =
     merge [(F_readyState, JStr ''loading''),
            (F_isLoading, JBool True),
            (F_isConnecting, JBool True),
            (F_startLoadingTime, JNum now),
            (F_icons, JUndefined),
            (F_thumbnail, JUndefined),
            (F_title, JUndefined),
            (F_securityState, JUndefined),
            (F_securityExtendedValidation, JUndefined),
            (F_canGoBack, JUndefined),
            (F_canGoForward, JUndefined)] state"

definition WebView_endLoad :: "real \<Rightarrow> 'o WebView \<Rightarrow> error + 'o WebView" where
  "WebView_endLoad now state =
     merge [(F_isConnecting, JBool False),
            (F_endLoadingTime, JNum now),
            (F_readyState, JStr ''loaded''),
            (F_isLoading, JBool False)] state"

definition WebView_changeProgress ::
    "'o jsval \<Rightarrow> real \<Rightarrow> 'o WebView \<Rightarrow> error + 'o WebView" where
  "WebView_changeProgress connectedTime' now state =
     (if \<not> isConnecting state then Inr state
      else merge [(F_isConnecting, JBool False),
                  (F_connectedTime, JNum now)] state)"

text \<open>Applying a transition \<open>n\<close> times in a row, a failure ending the chain.\<close>

fun times :: "nat \<Rightarrow> ('s \<Rightarrow> error + 's) \<Rightarrow> 's \<Rightarrow> error + 's" where
  "times 0 f s = Inr s"
| "times (Suc n) f s = (case f s of Inl e \<Rightarrow> Inl e | Inr s' \<Rightarrow> times n f s')"

text \<open>A view as \<^verbatim>\<open>WebView({id: i})\<close> builds it: every other field at its default.\<close>

definition WebView_new :: "string \<Rightarrow> 'o WebView" where
  "WebView_new i =
     \<lparr>id' = i, userInput = '''', zoom = 1, readyState = None,
      isLoading = False, isConnecting = False,
      startLoadingTime = - 1, connectedTime = - 1, endLoadingTime = - 1,
      isFocused = False, isActive = False, isSelected = False, isPinned = False,
      uri = None, title = None, icons = JUndefined, meta = JUndefined,
      backgroundColor = None, foregroundColor = None, isDark = False,
      securityState = ''insecure'', securityExtendedValidation = False,
      canGoBack = False, canGoForward = False, contentOverflows = False,
      thumbnail = None\<rparr>"


section \<open>The collection of views\<close>

text \<open>
  \<^verbatim>\<open>WebView.render\<close> (lines 185 to 245) renders nothing for a view without a
  \<^verbatim>\<open>uri\<close> (an unset or an empty one), and an iframe otherwise. The iframe is modelled
  by the properties that are computed from the state; the event handlers and the manifest
  URL of the url helper are left out.
\<close>

definition truthy :: "string option \<Rightarrow> bool" where
  "truthy x = (case x of None \<Rightarrow> False | Some s \<Rightarrow> s \<noteq> [])"

record iframe =
  frame_contentoverflows :: bool
  frame_rendered :: bool
  frame_isVisible :: bool
  frame_hidden :: bool
  frame_zoom :: real
  frame_isFocused :: bool
  frame_uri :: "string option"
  frame_readyState :: "string option"

definition WebView_render :: "'o WebView \<Rightarrow> iframe option" where
  "WebView_render state =
     (if \<not> truthy (uri state) then None
      else Some \<lparr>frame_contentoverflows = contentOverflows state,
                 frame_rendered = truthy (thumbnail state),
                 frame_isVisible = (isActive state \<or> isSelected state),
                 frame_hidden = (\<not> isActive state),
                 frame_zoom = zoom state,
                 frame_isFocused = isFocused state,
                 frame_uri = uri state,
                 frame_readyState = readyState state\<rparr>)"

text \<open>
  Immutable's \<^verbatim>\<open>sortBy\<close> is a stable sort by the key, with the default comparator
  (\<^verbatim>\<open><\<close> and \<^verbatim>\<open>>\<close>, on strings the lexicographic order of the code units), and
  \<^verbatim>\<open>indexOf\<close> is the index of the first equal element, or -1.
\<close>

definition sortBy :: "('a \<Rightarrow> 'k::linorder) \<Rightarrow> 'a list \<Rightarrow> 'a list" where
  "sortBy f xs = sort_key f xs"

fun indexOf :: "'a list \<Rightarrow> 'a \<Rightarrow> int" where
  "indexOf [] x = - 1"
| "indexOf (y # ys) x =
     (if y = x then 0 else (let i = indexOf ys x in if i < 0 then - 1 else i + 1))"

text \<open>
  \<^verbatim>\<open>WebViewBox\<close> and its \<^verbatim>\<open>render\<close> (lines 297 to 315). A child of the rendered
  \<^verbatim>\<open>div\<close> is a \<^verbatim>\<open>WebView.render\<close> component with its key, its state, and the index
  its \<^verbatim>\<open>edit\<close> handler is scoped to.
\<close>

record 'o WebViewBox =
  box_isActive :: bool
  items :: "'o WebView list"

record 'o child =
  child_key :: string
  child_state :: "'o WebView"
  child_edit :: int

record 'o element =
  div_className :: string
  div_hidden :: bool
  div_children :: "'o child list"

definition WebViewBox_render :: "'o WebViewBox \<Rightarrow> 'o element" where
  "WebViewBox_render state =
     \<lparr>div_className = ''iframes'',
      div_hidden = (\<not> box_isActive state),
      div_children =
        map (\<lambda>webView. \<lparr>child_key = id' webView, child_state = webView,
                          child_edit = indexOf (items state) webView\<rparr>)
            (sortBy id' (items state))\<rparr>"

text \<open>The keys of the children that mount an iframe, in the order of the children.\<close>

definition mounted :: "'o WebViewBox \<Rightarrow> string list" where
  "mounted state =
     map child_key (filter (\<lambda>c. WebView_render (child_state c) \<noteq> None)
                           (div_children (WebViewBox_render state)))"


section \<open>Promises and the event loop\<close>

text \<open>
  The thumbnail of a view is acquired by \<^verbatim>\<open>requestThumbnail\<close> (lines 270 to 291), a
  composition of promises. The browser runs one task at a time: it delivers an event to its
  handlers and then runs the promise jobs the handlers queued, and the jobs those queue,
  until none is left. The model is that event loop: a heap of promises, a queue of jobs,
  the listeners and requests the environment will answer, and the callbacks of the source
  as a datatype, each with the promises it closes over.
\<close>

type_synonym pid = nat

datatype event_type = mozbrowserlocationchange | mozbrowserloadend

datatype obj = DomEvent event_type | Blob nat | Promise pid

type_synonym val = "obj jsval"

datatype pstate = Pending | Fulfilled val | Rejected val

text \<open>
  The callbacks: the two resolving functions of a promise, the pair a promise gets when
  it adopts the state of another, and the four functions of the source:
  \<^verbatim>\<open>event => Promise.reject(event)\<close> (line 274),
  \<^verbatim>\<open>_ => Promise.race([abort, loaded]).then(_ => fetchScreenshot(iframe))\<close> (lines 284 to
  286), \<^verbatim>\<open>_ => fetchScreenshot(iframe)\<close> (line 286) and
  \<^verbatim>\<open>WebView.onThumbnailChanged(edit)\<close> (lines 182 and 234).
\<close>

datatype callback =
    CB_resolve pid
  | CB_reject pid
  | CB_adopt_resolve pid
  | CB_adopt_reject pid
  | CB_abort
  | CB_fallback pid pid
  | CB_screenshot
  | CB_thumbnailChanged

datatype reaction = Reaction "callback option" "callback option" pid

datatype job = ReactionJob reaction pstate | ThenableJob pid pid

record promise =
  promise_state :: pstate
  locked :: bool
  reacts :: "reaction list"

text \<open>
  The heap: the promises (a promise is its index), the queue of jobs, the one-shot
  listeners of \<^verbatim>\<open>fromEvent\<close>, the promise of the pending \<^verbatim>\<open>XMLHttpRequest\<close>, the
  promises of the pending screenshot requests, the number of calls of
  \<^verbatim>\<open>iframe.getScreenshot\<close>, and the blobs whose URL an edit has stored as the thumbnail
  of the view state.
\<close>

record heap =
  promises :: "promise list"
  jobs :: "job list"
  listeners :: "(event_type \<times> pid) list"
  xhr :: "pid option"
  requests :: "pid list"
  captures :: nat
  edits :: "nat list"

definition empty_heap :: heap where
  "empty_heap = \<lparr>promises = [], jobs = [], listeners = [], xhr = None, requests = [],
     captures = 0, edits = []\<rparr>"

definition fresh :: promise where
  "fresh = \<lparr>promise_state = Pending, locked = False, reacts = []\<rparr>"

definition promise_at :: "heap \<Rightarrow> pid \<Rightarrow> promise" where
  "promise_at h p = (if p < length (promises h) then promises h ! p else fresh)"

definition modify :: "pid \<Rightarrow> (promise \<Rightarrow> promise) \<Rightarrow> heap \<Rightarrow> heap" where
  "modify p f h = h\<lparr>promises := (promises h)[p := f (promise_at h p)]\<rparr>"

definition enqueue :: "job list \<Rightarrow> heap \<Rightarrow> heap" where
  "enqueue js h = h\<lparr>jobs := jobs h @ js\<rparr>"

definition new_promise :: "heap \<Rightarrow> pid \<times> heap" where
  "new_promise h = (length (promises h), h\<lparr>promises := promises h @ [fresh]\<rparr>)"

text \<open>A pending promise settles once; its reactions become jobs, in the order they were
  registered.\<close>

definition settle :: "pid \<Rightarrow> pstate \<Rightarrow> heap \<Rightarrow> heap" where
  "settle p st h =
     (case promise_state (promise_at h p) of
        Pending \<Rightarrow>
          enqueue (map (\<lambda>r. ReactionJob r st) (reacts (promise_at h p)))
            (modify p (\<lambda>r. r\<lparr>promise_state := st, reacts := []\<rparr>) h)
      | _ \<Rightarrow> h)"

text \<open>Resolving with a promise adopts its state, through a job; resolving with any other
  value fulfils. The resolving functions of a promise work once.\<close>

definition fulfil_or_adopt :: "pid \<Rightarrow> val \<Rightarrow> heap \<Rightarrow> heap" where
  "fulfil_or_adopt p v h =
     (case v of
        JObj (Promise q) \<Rightarrow>
          (if q = p then settle p (Rejected (JStr ''TypeError'')) h
           else enqueue [ThenableJob p q] h)
      | _ \<Rightarrow> settle p (Fulfilled v) h)"

definition resolve :: "pid \<Rightarrow> val \<Rightarrow> heap \<Rightarrow> heap" where
  "resolve p v h =
     (if locked (promise_at h p) then h
      else fulfil_or_adopt p v (modify p (\<lambda>r. r\<lparr>locked := True\<rparr>) h))"

definition reject :: "pid \<Rightarrow> val \<Rightarrow> heap \<Rightarrow> heap" where
  "reject p v h =
     (if locked (promise_at h p) then h
      else settle p (Rejected v) (modify p (\<lambda>r. r\<lparr>locked := True\<rparr>) h))"

text \<open>\<^verbatim>\<open>p.then(onFulfilled, onRejected)\<close>, \<^verbatim>\<open>p.catch(onRejected)\<close>,
  \<^verbatim>\<open>Promise.reject(v)\<close> and \<^verbatim>\<open>Promise.race(ps)\<close>.\<close>

definition then' :: "pid \<Rightarrow> callback option \<Rightarrow> callback option \<Rightarrow> heap \<Rightarrow> pid \<times> heap" where
  "then' p onFulfilled onRejected h =
     (let (d, h1) = new_promise h;
          r = Reaction onFulfilled onRejected d
      in (d, case promise_state (promise_at h1 p) of
               Pending \<Rightarrow> modify p (\<lambda>x. x\<lparr>reacts := reacts x @ [r]\<rparr>) h1
             | st \<Rightarrow> enqueue [ReactionJob r st] h1))"

definition catch' :: "pid \<Rightarrow> callback \<Rightarrow> heap \<Rightarrow> pid \<times> heap" where
  "catch' p onRejected h = then' p None (Some onRejected) h"

definition Promise_reject :: "val \<Rightarrow> heap \<Rightarrow> pid \<times> heap" where
  "Promise_reject v h = (let (p, h1) = new_promise h in (p, reject p v h1))"

definition Promise_race :: "pid list \<Rightarrow> heap \<Rightarrow> pid \<times> heap" where
  "Promise_race ps h =
     (let (d, h1) = new_promise h
      in (d, fold (\<lambda>p h'. snd (then' p (Some (CB_resolve d)) (Some (CB_reject d)) h')) ps h1))"

text \<open>
  Modelled from the spec: \<^verbatim>\<open>fromEvent\<close> and \<^verbatim>\<open>fromDOMRequest\<close> of
  \<^verbatim>\<open>lang/promise\<close> are not under src/. The promise of \<^verbatim>\<open>fromEvent\<close> resolves when
  the surface emits the next event of the type; the promise of \<^verbatim>\<open>fromDOMRequest\<close>
  resolves with the result of the request, or rejects with its error.
\<close>

definition fromEvent :: "event_type \<Rightarrow> heap \<Rightarrow> pid \<times> heap" where
  "fromEvent ty h =
     (let (p, h1) = new_promise h in (p, h1\<lparr>listeners := listeners h1 @ [(ty, p)]\<rparr>))"

definition fromDOMRequest :: "heap \<Rightarrow> pid \<times> heap" where
  "fromDOMRequest h =
     (let (p, h1) = new_promise h in (p, h1\<lparr>requests := requests h1 @ [p]\<rparr>))"

text \<open>\<^verbatim>\<open>fetchScreenshot\<close> (lines 248 to 251) calls \<^verbatim>\<open>iframe.getScreenshot\<close>, and
  \<^verbatim>\<open>fetchThumbnail\<close> (lines 255 to 268) sends the request for the persisted tile.\<close>

definition fetchScreenshot :: "heap \<Rightarrow> pid \<times> heap" where
  "fetchScreenshot h = fromDOMRequest (h\<lparr>captures := Suc (captures h)\<rparr>)"

definition fetchThumbnail :: "heap \<Rightarrow> pid \<times> heap" where
  "fetchThumbnail h = (let (p, h1) = new_promise h in (p, h1\<lparr>xhr := Some p\<rparr>))"

datatype completion = Normal val | Throw val

fun call :: "callback \<Rightarrow> val \<Rightarrow> heap \<Rightarrow> completion \<times> heap" where
  "call (CB_resolve p) v h = (Normal JUndefined, resolve p v h)"
| "call (CB_reject p) v h = (Normal JUndefined, reject p v h)"
| "call (CB_adopt_resolve p) v h = (Normal JUndefined, fulfil_or_adopt p v h)"
| "call (CB_adopt_reject p) v h = (Normal JUndefined, settle p (Rejected v) h)"
| "call CB_abort event h =
     (let (q, h1) = Promise_reject event h in (Normal (JObj (Promise q)), h1))"
| "call (CB_fallback abort loaded) v h =
     (let (r, h1) = Promise_race [abort, loaded] h;
          (t, h2) = then' r (Some CB_screenshot) None h1
      in (Normal (JObj (Promise t)), h2))"
| "call CB_screenshot v h =
     (let (q, h1) = fetchScreenshot h in (Normal (JObj (Promise q)), h1))"
| "call CB_thumbnailChanged blob h =
     (case blob of
        JObj (Blob b) \<Rightarrow> (Normal JUndefined, h\<lparr>edits := edits h @ [b]\<rparr>)
      | _ \<Rightarrow> (Throw (JStr ''TypeError''), h))"

text \<open>A reaction job calls the handler for the settled state, and resolves the derived
  promise with what it returns or rejects it with what it throws; without a handler the
  state passes through.\<close>

definition finish :: "pid \<Rightarrow> completion \<times> heap \<Rightarrow> heap" where
  "finish d r = (case r of (Normal v, h) \<Rightarrow> resolve d v h | (Throw e, h) \<Rightarrow> reject d e h)"

fun run_job :: "job \<Rightarrow> heap \<Rightarrow> heap" where
  "run_job (ReactionJob (Reaction onFulfilled onRejected d) st) h =
     (case st of
        Fulfilled v \<Rightarrow>
          (case onFulfilled of None \<Rightarrow> resolve d v h | Some cb \<Rightarrow> finish d (call cb v h))
      | Rejected v \<Rightarrow>
          (case onRejected of None \<Rightarrow> reject d v h | Some cb \<Rightarrow> finish d (call cb v h))
      | Pending \<Rightarrow> h)"
| "run_job (ThenableJob d q) h =
     snd (then' q (Some (CB_adopt_resolve d)) (Some (CB_adopt_reject d)) h)"

text \<open>Running the jobs until the queue is empty. A queue that never empties gives
  \<^term>\<open>None\<close>.\<close>

partial_function (option) drain :: "heap \<Rightarrow> heap option" where
  "drain h =
     (case jobs h of
        [] \<Rightarrow> Some h
      | j # js \<Rightarrow> drain (run_job j (h\<lparr>jobs := js\<rparr>)))"

declare drain.simps [code]

text \<open>
  What the environment does: the surface emits an event; the request for the tile loads
  (with a status, a response and a status text) or fails; the screenshot request succeeds
  with a blob or fails. An answer to a request that is not pending changes nothing.
\<close>

datatype event =
    Dom event_type
  | XhrLoad nat nat string
  | XhrError
  | RequestSuccess nat
  | RequestError string

fun is_xhr :: "event \<Rightarrow> bool" where
  "is_xhr (XhrLoad status response statusText) = True"
| "is_xhr XhrError = True"
| "is_xhr (Dom ty) = False"
| "is_xhr (RequestSuccess b) = False"
| "is_xhr (RequestError e) = False"

fun dispatch :: "event \<Rightarrow> heap \<Rightarrow> heap" where
  "dispatch (Dom ty) h =
     fold (\<lambda>p. resolve p (JObj (DomEvent ty)))
          (map snd (filter (\<lambda>l. fst l = ty) (listeners h)))
          (h\<lparr>listeners := filter (\<lambda>l. fst l \<noteq> ty) (listeners h)\<rparr>)"
| "dispatch (XhrLoad status response statusText) h =
     (case xhr h of
        None \<Rightarrow> h
      | Some p \<Rightarrow>
          (if status = 200 then resolve p (JObj (Blob response)) (h\<lparr>xhr := None\<rparr>)
           else reject p (JStr statusText) (h\<lparr>xhr := None\<rparr>)))"
| "dispatch XhrError h =
     (case xhr h of None \<Rightarrow> h | Some p \<Rightarrow> reject p JUndefined (h\<lparr>xhr := None\<rparr>))"
| "dispatch (RequestSuccess b) h =
     (case requests h of
        [] \<Rightarrow> h
      | p # ps \<Rightarrow> resolve p (JObj (Blob b)) (h\<lparr>requests := ps\<rparr>))"
| "dispatch (RequestError e) h =
     (case requests h of
        [] \<Rightarrow> h
      | p # ps \<Rightarrow> reject p (JStr e) (h\<lparr>requests := ps\<rparr>))"

definition task :: "event \<Rightarrow> heap \<Rightarrow> heap option" where
  "task e h = drain (dispatch e h)"

fun run :: "event list \<Rightarrow> heap \<Rightarrow> heap option" where
  "run [] h = Some h"
| "run (e # es) h = (case task e h of None \<Rightarrow> None | Some h' \<Rightarrow> run es h')"


section \<open>The acquisition of a thumbnail\<close>

text \<open>\<^verbatim>\<open>requestThumbnail\<close> (lines 270 to 291), statement by statement.\<close>

definition requestThumbnail :: "heap \<Rightarrow> pid \<times> heap" where
  "requestThumbnail h0 =
     (let (e, h1) = fromEvent mozbrowserlocationchange h0;
          (abort, h2) = then' e (Some CB_abort) None h1;
          (loaded, h3) = fromEvent mozbrowserloadend h2;
          (f, h4) = fetchThumbnail h3;
          (thumbnail, h5) = catch' f (CB_fallback abort loaded) h4
      in Promise_race [abort, thumbnail] h5)"

text \<open>
  The caller, in \<^verbatim>\<open>onLocationChange\<close> (lines 233 and 234):
  \<^verbatim>\<open>requestThumbnail(event.target).then(WebView.onThumbnailChanged(edit))\<close>. It returns the
  promise of \<^verbatim>\<open>requestThumbnail\<close> and the promise of its \<^verbatim>\<open>then\<close>.
\<close>

definition onLocationChange :: "heap \<Rightarrow> (pid \<times> pid) \<times> heap" where
  "onLocationChange h =
     (let (r, h1) = requestThumbnail h;
          (c, h2) = then' r (Some CB_thumbnailChanged) None h1
      in ((r, c), h2))"

text \<open>One acquisition, started on an empty heap: the promise of its result, the promise
  of the caller's \<^verbatim>\<open>then\<close>, and the heap when the handler returns.\<close>

definition result :: pid where
  "result = fst (fst (onLocationChange empty_heap))"

definition applied :: pid where
  "applied = snd (fst (onLocationChange empty_heap))"

definition heap0 :: heap where
  "heap0 = snd (onLocationChange empty_heap)"




section \<open>The heaps of an acquisition\<close>

text \<open>
  An acquisition reaches few heaps. Those it reaches while it waits for the tile, after the
  tile was found, and after a location change are written out here; the lemmas of the last
  section prove that the event loop computes them. Three shapes of promise occur: pending
  with its reactions, pending and about to adopt the state of another promise, and
  settled. The promises are numbered from 0: promise 0 waits for the location change,
  1 is \<^verbatim>\<open>abort\<close>, 2 is \<^verbatim>\<open>loaded\<close>, 3 is the promise of \<^verbatim>\<open>fetchThumbnail\<close>,
  4 is \<^verbatim>\<open>thumbnail\<close>, 5 is the promise \<^verbatim>\<open>requestThumbnail\<close> returns, and 8 is the
  promise of the caller's \<^verbatim>\<open>then\<close>.
\<close>

definition pending :: "reaction list \<Rightarrow> promise" where
  "pending rs = \<lparr>promise_state = Pending, locked = False, reacts = rs\<rparr>"

definition adopting :: "reaction list \<Rightarrow> promise" where
  "adopting rs = \<lparr>promise_state = Pending, locked = True, reacts = rs\<rparr>"

definition settled :: "pstate \<Rightarrow> promise" where
  "settled st = \<lparr>promise_state = st, locked = True, reacts = []\<rparr>"

definition left_event :: val where
  "left_event = JObj (DomEvent mozbrowserlocationchange)"

definition loaded_event :: val where
  "loaded_event = JObj (DomEvent mozbrowserloadend)"

subsection \<open>Waiting for the tile\<close>

text \<open>The heap when the handler has returned.\<close>

definition started :: heap where
  "started =
     \<lparr>promises =
         [pending [Reaction (Some CB_abort) None 1],
          pending [Reaction (Some (CB_resolve 5)) (Some (CB_reject 5)) 6],
          pending [],
          pending [Reaction None (Some (CB_fallback 1 2)) 4],
          pending [Reaction (Some (CB_resolve 5)) (Some (CB_reject 5)) 7],
          pending [Reaction (Some CB_thumbnailChanged) None 8],
          pending [],
          pending [],
          pending []],
      jobs = [], listeners = [(mozbrowserlocationchange, 0), (mozbrowserloadend, 2)],
      xhr = Some 3, requests = [], captures = 0, edits = []\<rparr>"

text \<open>The heap after a load end.\<close>

definition loaded_first :: heap where
  "loaded_first =
     \<lparr>promises =
         [pending [Reaction (Some CB_abort) None 1],
          pending [Reaction (Some (CB_resolve 5)) (Some (CB_reject 5)) 6],
          settled (Fulfilled loaded_event),
          pending [Reaction None (Some (CB_fallback 1 2)) 4],
          pending [Reaction (Some (CB_resolve 5)) (Some (CB_reject 5)) 7],
          pending [Reaction (Some CB_thumbnailChanged) None 8],
          pending [],
          pending [],
          pending []],
      jobs = [], listeners = [(mozbrowserlocationchange, 0)],
      xhr = Some 3, requests = [], captures = 0, edits = []\<rparr>"

definition waiting :: "heap \<Rightarrow> bool" where
  "waiting h \<longleftrightarrow> h = started \<or> h = loaded_first"

subsection \<open>The tile was found before any location change\<close>

text \<open>The heap after the tile was found.\<close>

definition hit :: "nat \<Rightarrow> heap" where
  "hit B =
     \<lparr>promises =
         [pending [Reaction (Some CB_abort) None 1],
          pending [Reaction (Some (CB_resolve 5)) (Some (CB_reject 5)) 6],
          pending [],
          settled (Fulfilled (JObj (Blob B))),
          settled (Fulfilled (JObj (Blob B))),
          settled (Fulfilled (JObj (Blob B))),
          pending [],
          settled (Fulfilled JUndefined),
          settled (Fulfilled JUndefined)],
      jobs = [], listeners = [(mozbrowserlocationchange, 0), (mozbrowserloadend, 2)],
      xhr = None, requests = [], captures = 0, edits = [B]\<rparr>"

text \<open>The heap after the tile was found, and a load end before or after it.\<close>

definition hit_loaded :: "nat \<Rightarrow> heap" where
  "hit_loaded B =
     \<lparr>promises =
         [pending [Reaction (Some CB_abort) None 1],
          pending [Reaction (Some (CB_resolve 5)) (Some (CB_reject 5)) 6],
          settled (Fulfilled loaded_event),
          settled (Fulfilled (JObj (Blob B))),
          settled (Fulfilled (JObj (Blob B))),
          settled (Fulfilled (JObj (Blob B))),
          pending [],
          settled (Fulfilled JUndefined),
          settled (Fulfilled JUndefined)],
      jobs = [], listeners = [(mozbrowserlocationchange, 0)],
      xhr = None, requests = [], captures = 0, edits = [B]\<rparr>"

text \<open>The heap after the tile was found, and then a location change.\<close>

definition hit_left :: "nat \<Rightarrow> heap" where
  "hit_left B =
     \<lparr>promises =
         [settled (Fulfilled left_event),
          settled (Rejected left_event),
          pending [],
          settled (Fulfilled (JObj (Blob B))),
          settled (Fulfilled (JObj (Blob B))),
          settled (Fulfilled (JObj (Blob B))),
          settled (Fulfilled JUndefined),
          settled (Fulfilled JUndefined),
          settled (Fulfilled JUndefined),
          settled (Rejected left_event),
          settled (Fulfilled JUndefined)],
      jobs = [], listeners = [(mozbrowserloadend, 2)],
      xhr = None, requests = [], captures = 0, edits = [B]\<rparr>"

text \<open>The heap after the tile was found, a load end, and a location change after the tile.\<close>

definition hit_loaded_left :: "nat \<Rightarrow> heap" where
  "hit_loaded_left B =
     \<lparr>promises =
         [settled (Fulfilled left_event),
          settled (Rejected left_event),
          settled (Fulfilled loaded_event),
          settled (Fulfilled (JObj (Blob B))),
          settled (Fulfilled (JObj (Blob B))),
          settled (Fulfilled (JObj (Blob B))),
          settled (Fulfilled JUndefined),
          settled (Fulfilled JUndefined),
          settled (Fulfilled JUndefined),
          settled (Rejected left_event),
          settled (Fulfilled JUndefined)],
      jobs = [], listeners = [], xhr = None, requests = [], captures = 0, edits = [B]\<rparr>"

definition cached :: "nat \<Rightarrow> heap \<Rightarrow> bool" where
  "cached B h \<longleftrightarrow>
     h = hit B \<or> h = hit_loaded B \<or> h = hit_left B \<or> h = hit_loaded_left B"

subsection \<open>A location change came first\<close>









section \<open>Properties of the transitions\<close>

lemmas reads =
  with_default_def parse_String_def parse_Number_def parse_Boolean_def
  T_String_def T_Number_def T_Boolean_def T_Maybe_def T_Any_def store_def

lemma startLoad_eq:
  "WebView_startLoad now s =
     Inr (s\<lparr>readyState := Some ''loading'', isLoading := True, isConnecting := True,
            startLoadingTime := now, icons := JUndefined, thumbnail := None, title := None,
            securityState := ''insecure'', securityExtendedValidation := False,
            canGoBack := False, canGoForward := False\<rparr>)"
  by (simp add: WebView_startLoad_def reads)

lemma endLoad_eq:
  "WebView_endLoad now s =
     Inr (s\<lparr>isConnecting := False, endLoadingTime := now,
            readyState := Some ''loaded'', isLoading := False\<rparr>)"
  by (simp add: WebView_endLoad_def reads)

lemma persistent_eq:
  "WebView_persistent s =
     Inr (s\<lparr>thumbnail := None, readyState := None, isLoading := False, isConnecting := False,
            startLoadingTime := - 1, connectedTime := - 1, endLoadingTime := - 1,
            backgroundColor := None, foregroundColor := None, isDark := False,
            title := None, securityState := ''insecure'',
            securityExtendedValidation := False, canGoBack := False,
            canGoForward := False\<rparr>)"
  by (simp add: WebView_persistent_def patch_def reads)


lemma changeProgress_connecting:
  "isConnecting s \<Longrightarrow>
   WebView_changeProgress a now s = Inr (s\<lparr>isConnecting := False, connectedTime := now\<rparr>)"
  by (simp add: WebView_changeProgress_def reads)

lemma changeProgress_idle: "\<not> isConnecting s \<Longrightarrow> WebView_changeProgress a now s = Inr s"
  by (simp add: WebView_changeProgress_def)

lemma zoomIn_le: "zoomIn rnd v \<le> ZOOM_MAX"
  by (simp add: zoomIn_def)

lemma zoomOut_ge: "ZOOM_MIN \<le> zoomOut rnd v"
  by (simp add: zoomOut_def)

lemma WebView_zoomIn_eq: "WebView_zoomIn rnd s = Inr (s\<lparr>zoom := zoomIn rnd (zoom s)\<rparr>)"
  by (simp add: WebView_zoomIn_def reads)

lemma WebView_zoomOut_eq: "WebView_zoomOut rnd s = Inr (s\<lparr>zoom := zoomOut rnd (zoom s)\<rparr>)"
  by (simp add: WebView_zoomOut_def reads)

lemma zoomIn_chain:
  "zoom s \<le> ZOOM_MAX \<Longrightarrow> \<exists>s'. times n (WebView_zoomIn rnd) s = Inr s' \<and> zoom s' \<le> ZOOM_MAX"
proof (induction n arbitrary: s)
  case 0
  then show ?case by simp
next
  case (Suc n)
  have "zoom (s\<lparr>zoom := zoomIn rnd (zoom s)\<rparr>) \<le> ZOOM_MAX"
    by (simp add: zoomIn_le)
  from Suc.IH [OF this] show ?case
    by (simp add: WebView_zoomIn_eq)
qed

lemma zoomOut_chain:
  "ZOOM_MIN \<le> zoom s \<Longrightarrow> \<exists>s'. times n (WebView_zoomOut rnd) s = Inr s' \<and> ZOOM_MIN \<le> zoom s'"
proof (induction n arbitrary: s)
  case 0
  then show ?case by simp
next
  case (Suc n)
  have "ZOOM_MIN \<le> zoom (s\<lparr>zoom := zoomOut rnd (zoom s)\<rparr>)"
    by (simp add: zoomOut_ge)
  from Suc.IH [OF this] show ?case
    by (simp add: WebView_zoomOut_eq)
qed

lemma zoomReset_eq: "WebView_zoomReset s = Inr (s\<lparr>zoom := 1\<rparr>)"
  by (simp add: WebView_zoomReset_def remove_def reads)


text \<open>
  C3. For every view state and every clock reading \<open>now\<close>, \<^verbatim>\<open>startLoad\<close> succeeds and
  gives a state that is loading and connecting, whose \<^verbatim>\<open>readyState\<close> is
  \<^verbatim>\<open>'loading'\<close>, whose \<^verbatim>\<open>startLoadingTime\<close> is the clock reading, and whose icons,
  thumbnail, title, security state, extended validation flag and navigation flags are
  cleared: icons, thumbnail and title are unset, and the others are back at their declared
  defaults (\<^verbatim>\<open>'insecure'\<close> and \<^verbatim>\<open>false\<close>).
\<close>

theorem startLoad_sets_and_clears:
  "\<exists>s'. WebView_startLoad now s = Inr s'
     \<and> isLoading s' \<and> isConnecting s' \<and> readyState s' = Some ''loading''
     \<and> startLoadingTime s' = now
     \<and> icons s' = JUndefined \<and> thumbnail s' = None \<and> title s' = None
     \<and> securityState s' = ''insecure'' \<and> securityExtendedValidation s' = False
     \<and> canGoBack s' = False \<and> canGoForward s' = False"
  by (simp add: startLoad_eq)

text \<open>
  C4. For every view state, \<^verbatim>\<open>startLoad\<close> at clock reading \<open>t1\<close> followed by
  \<^verbatim>\<open>endLoad\<close> at a later reading \<open>t2\<close> of the monotonic clock (\<open>t1 \<le> t2\<close>) gives a
  state that is neither loading nor connecting, whose \<^verbatim>\<open>readyState\<close> is
  \<^verbatim>\<open>'loaded'\<close> and whose \<^verbatim>\<open>endLoadingTime\<close> is at least its
  \<^verbatim>\<open>startLoadingTime\<close>.
\<close>

theorem startLoad_then_endLoad:
  assumes "t1 \<le> t2"
  shows "\<exists>s1 s2. WebView_startLoad t1 s = Inr s1 \<and> WebView_endLoad t2 s1 = Inr s2
     \<and> isLoading s2 = False \<and> isConnecting s2 = False \<and> readyState s2 = Some ''loaded''
     \<and> startLoadingTime s2 \<le> endLoadingTime s2"
  using assms by (simp add: startLoad_eq endLoad_eq)

theorem startLoad_then_endLoad_witness:
  "(10 :: real) \<le> 25 \<and>
   (\<exists>s1 s2. WebView_startLoad 10 (WebView_new ''a'' :: unit WebView) = Inr s1
      \<and> WebView_endLoad 25 s1 = Inr s2
      \<and> isLoading s2 = False \<and> isConnecting s2 = False \<and> readyState s2 = Some ''loaded''
      \<and> startLoadingTime s2 \<le> endLoadingTime s2)"
proof -
  have le: "(10 :: real) \<le> 25" by simp
  from startLoad_then_endLoad [OF le, of "WebView_new ''a'' :: unit WebView"] le
  show ?thesis by blast
qed

text \<open>
  C5, as the spec states it, fails: the argument of \<^verbatim>\<open>changeProgress\<close> is not the
  timestamp that is stored. With the argument 5 and the clock at 7, a connecting view gets
  the \<^verbatim>\<open>connectedTime\<close> 7.
\<close>

theorem changeProgress_argument_counterexample:
  "isConnecting ((WebView_new ''a'' :: unit WebView)\<lparr>isConnecting := True\<rparr>)
   \<and> WebView_changeProgress (JNum 5) 7
         ((WebView_new ''a'' :: unit WebView)\<lparr>isConnecting := True\<rparr>)
       = Inr ((WebView_new ''a'')\<lparr>isConnecting := False, connectedTime := 7\<rparr>)
   \<and> connectedTime ((WebView_new ''a'' :: unit WebView)
         \<lparr>isConnecting := False, connectedTime := 7\<rparr>) \<noteq> 5"
  by (simp add: WebView_changeProgress_def reads)

text \<open>
  C5, amended. For every view state with \<^verbatim>\<open>isConnecting\<close> set, every argument and every
  clock reading \<open>now\<close>, \<^verbatim>\<open>changeProgress\<close> succeeds and gives a state that is no longer
  connecting and whose \<^verbatim>\<open>connectedTime\<close> is the reading of \<^verbatim>\<open>performance.now()\<close> at
  the time of the transition; the argument is ignored.
\<close>

theorem changeProgress_stamps_clock:
  assumes "isConnecting s"
  shows "\<exists>s'. WebView_changeProgress a now s = Inr s'
     \<and> isConnecting s' = False \<and> connectedTime s' = now
     \<and> WebView_changeProgress a now s = WebView_changeProgress JUndefined now s"
  using assms by (simp add: changeProgress_connecting)

theorem changeProgress_stamps_clock_witness:
  "isConnecting ((WebView_new ''a'' :: unit WebView)\<lparr>isConnecting := True\<rparr>)
   \<and> (\<exists>s'. WebView_changeProgress (JNum 5) 7
              ((WebView_new ''a'' :: unit WebView)\<lparr>isConnecting := True\<rparr>) = Inr s'
        \<and> isConnecting s' = False \<and> connectedTime s' = 7
        \<and> WebView_changeProgress (JNum 5) 7
              ((WebView_new ''a'' :: unit WebView)\<lparr>isConnecting := True\<rparr>)
           = WebView_changeProgress JUndefined 7
              ((WebView_new ''a'' :: unit WebView)\<lparr>isConnecting := True\<rparr>))"
proof -
  have c: "isConnecting ((WebView_new ''a'' :: unit WebView)\<lparr>isConnecting := True\<rparr>)"
    by simp
  from changeProgress_stamps_clock [OF c, of "JNum 5" 7] c
  show ?thesis by blast
qed

text \<open>
  C6. For every view state that is not connecting, every argument and every clock reading,
  \<^verbatim>\<open>changeProgress\<close> returns the state itself; and for every view state, a second
  \<^verbatim>\<open>changeProgress\<close> after a first one returns the state the first one gave.
\<close>

theorem changeProgress_noop:
  "(\<not> isConnecting s \<longrightarrow> WebView_changeProgress t now s = Inr s)
   \<and> (\<exists>s1. WebView_changeProgress t now s = Inr s1
         \<and> WebView_changeProgress t' now' s1 = Inr s1)"
proof (cases "isConnecting s")
  case True
  then show ?thesis
    by (simp add: changeProgress_connecting changeProgress_idle)
next
  case False
  then show ?thesis
    by (simp add: changeProgress_idle)
qed

theorem changeProgress_noop_witness:
  "\<not> isConnecting (WebView_new ''a'' :: unit WebView)
   \<and> WebView_changeProgress (JNum 5) 7 (WebView_new ''a'' :: unit WebView)
       = Inr (WebView_new ''a'')
   \<and> (\<exists>s1. WebView_changeProgress (JNum 5) 7
              ((WebView_new ''a'' :: unit WebView)\<lparr>isConnecting := True\<rparr>) = Inr s1
         \<and> WebView_changeProgress (JNum 6) 9 s1 = Inr s1)"
proof -
  have idle: "\<not> isConnecting (WebView_new ''a'' :: unit WebView)"
    by (simp add: WebView_new_def)
  from changeProgress_noop [of "WebView_new ''a'' :: unit WebView" "JNum 5" 7] idle
  have first: "WebView_changeProgress (JNum 5) 7 (WebView_new ''a'' :: unit WebView)
      = Inr (WebView_new ''a'')"
    by blast
  from changeProgress_noop
    [of "(WebView_new ''a'' :: unit WebView)\<lparr>isConnecting := True\<rparr>" "JNum 5" 7 "JNum 6" 9]
  have second: "\<exists>s1. WebView_changeProgress (JNum 5) 7
              ((WebView_new ''a'' :: unit WebView)\<lparr>isConnecting := True\<rparr>) = Inr s1
         \<and> WebView_changeProgress (JNum 6) 9 s1 = Inr s1"
    by blast
  from idle first second show ?thesis by blast
qed

text \<open>
  C7. For every view state whose zoom is between 0.5 and 2, and every rounding of the
  floating-point sums, every chain of \<^verbatim>\<open>zoomIn\<close> succeeds and gives a zoom of at most 2,
  and every chain of \<^verbatim>\<open>zoomOut\<close> succeeds and gives a zoom of at least 0.5; and
  \<^verbatim>\<open>zoomReset\<close> of any view state gives a zoom of exactly 1.
\<close>

theorem zoom_chains_bounded:
  assumes "1 / 2 \<le> zoom s" and "zoom s \<le> 2"
  shows "(\<exists>s'. times n (WebView_zoomIn rnd) s = Inr s' \<and> zoom s' \<le> 2)
     \<and> (\<exists>s'. times n (WebView_zoomOut rnd) s = Inr s' \<and> 1 / 2 \<le> zoom s')
     \<and> (\<exists>s'. WebView_zoomReset r = Inr s' \<and> zoom s' = 1)"
  using assms zoomIn_chain [of s n rnd] zoomOut_chain [of s n rnd]
  by (simp add: ZOOM_MAX_def ZOOM_MIN_def zoomReset_eq)

theorem zoom_chains_bounded_witness:
  "1 / 2 \<le> zoom (WebView_new ''a'' :: unit WebView) \<and> zoom (WebView_new ''a'' :: unit WebView) \<le> 2
   \<and> (\<exists>s'. times 12 (WebView_zoomIn (\<lambda>x. x)) (WebView_new ''a'' :: unit WebView) = Inr s'
         \<and> zoom s' \<le> 2)
   \<and> (\<exists>s'. times 12 (WebView_zoomOut (\<lambda>x. x)) (WebView_new ''a'' :: unit WebView) = Inr s'
         \<and> 1 / 2 \<le> zoom s')
   \<and> (\<exists>s'. WebView_zoomReset ((WebView_new ''a'' :: unit WebView)\<lparr>zoom := 2\<rparr>) = Inr s'
         \<and> zoom s' = 1)"
proof -
  have lo: "1 / 2 \<le> zoom (WebView_new ''a'' :: unit WebView)"
    by (simp add: WebView_new_def)
  have hi: "zoom (WebView_new ''a'' :: unit WebView) \<le> 2"
    by (simp add: WebView_new_def)
  from zoom_chains_bounded
    [OF lo hi, of 12 "\<lambda>x. x" "(WebView_new ''a'' :: unit WebView)\<lparr>zoom := 2\<rparr>"] lo hi
  show ?thesis by blast
qed

text \<open>
  C8. For every view state, the persistent projection succeeds, and projecting its result
  again gives that result.
\<close>

theorem persistent_idempotent:
  "\<exists>s1. WebView_persistent s = Inr s1 \<and> WebView_persistent s1 = Inr s1"
  by (simp add: persistent_eq)

text \<open>
  C10. For every view state, the persistent projection succeeds and resets the transient
  fields to the declared defaults of the record: the security state is \<^verbatim>\<open>'insecure'\<close>;
  the loading, connecting, dark, extended validation and navigation flags are false; the
  three timestamps are -1; thumbnail, ready state, title and the two colours are unset.
  Every other field (id, user input, zoom, uri, icons, meta, the focused, active, selected
  and pinned flags, and the overflow flag) is as it was.
\<close>

theorem persistent_resets_to_defaults:
  "\<exists>s'. WebView_persistent s = Inr s'
     \<and> securityState s' = ''insecure''
     \<and> isLoading s' = False \<and> isConnecting s' = False \<and> isDark s' = False
     \<and> securityExtendedValidation s' = False \<and> canGoBack s' = False \<and> canGoForward s' = False
     \<and> startLoadingTime s' = - 1 \<and> connectedTime s' = - 1 \<and> endLoadingTime s' = - 1
     \<and> thumbnail s' = None \<and> readyState s' = None \<and> title s' = None
     \<and> backgroundColor s' = None \<and> foregroundColor s' = None
     \<and> id' s' = id' s \<and> userInput s' = userInput s \<and> zoom s' = zoom s \<and> uri s' = uri s
     \<and> icons s' = icons s \<and> meta s' = meta s
     \<and> isFocused s' = isFocused s \<and> isActive s' = isActive s
     \<and> isSelected s' = isSelected s \<and> isPinned s' = isPinned s
     \<and> contentOverflows s' = contentOverflows s"
  by (simp add: persistent_eq)

section \<open>Properties of the collection\<close>

lemma map_insort_key: "map f (insort_key f x xs) = insort (f x) (map f xs)"
  by (induction xs) simp_all

lemma map_sort_key: "map f (sort_key f xs) = sort (map f xs)"
  by (induction xs) (simp_all add: map_insort_key)

lemma render_states:
  "map child_state (div_children (WebViewBox_render box)) = sort_key id' (items box)"
  by (simp add: WebViewBox_render_def sortBy_def comp_def)

lemma render_keys:
  "map child_key (div_children (WebViewBox_render box)) = sort (map id' (items box))"
  by (simp add: WebViewBox_render_def sortBy_def comp_def map_sort_key)

lemma mounted_sorted: "sorted (mounted box)"
proof -
  have "sorted (map child_key (div_children (WebViewBox_render box)))"
    by (simp add: render_keys)
  then show ?thesis
    unfolding mounted_def by (rule sorted_filter)
qed

lemma mounted_all:
  assumes "list_all (\<lambda>w. truthy (uri w)) (items box)"
  shows "mounted box = sort (map id' (items box))"
proof -
  have "\<forall>c \<in> set (div_children (WebViewBox_render box)). WebView_render (child_state c) \<noteq> None"
    using assms
    by (auto simp add: WebViewBox_render_def sortBy_def WebView_render_def list_all_iff)
  then have "filter (\<lambda>c. WebView_render (child_state c) \<noteq> None)
      (div_children (WebViewBox_render box)) = div_children (WebViewBox_render box)"
    by (simp add: filter_id_conv)
  then show ?thesis
    by (simp add: mounted_def render_keys)
qed

lemma render_keys_permutation:
  assumes "mset (items box') = mset (items box)"
  shows "map child_key (div_children (WebViewBox_render box'))
     = map child_key (div_children (WebViewBox_render box))"
proof -
  have "mset (sort (map id' (items box))) = mset (map id' (items box'))"
    using assms by simp
  then have "sort (map id' (items box')) = sort (map id' (items box))"
    by (rule properties_for_sort) simp
  then show ?thesis
    by (simp add: render_keys)
qed

text \<open>
  C9. For every collection, the children that \<^verbatim>\<open>WebViewBox.render\<close> renders are the
  items sorted by their id (a stable sort), so their keys are the sorted ids, and the
  iframes that are mounted (the children with a uri) follow the order of the ids. Two
  collections that hold the same items in different orders render the same sequence of
  keys. In particular, items with the ids b, a, c are rendered in the order a, b, c, and
  mounted in that order when each has a uri.
\<close>

theorem render_order_by_id:
  "map child_state (div_children (WebViewBox_render box)) = sort_key id' (items box)
   \<and> map child_key (div_children (WebViewBox_render box)) = sort (map id' (items box))
   \<and> sorted (mounted box)
   \<and> (mset (items box') = mset (items box) \<longrightarrow>
        map child_key (div_children (WebViewBox_render box'))
          = map child_key (div_children (WebViewBox_render box)))
   \<and> (map id' (items box) = [''b'', ''a'', ''c''] \<longrightarrow>
        map child_key (div_children (WebViewBox_render box)) = [''a'', ''b'', ''c'']
        \<and> (list_all (\<lambda>w. truthy (uri w)) (items box) \<longrightarrow>
              mounted box = [''a'', ''b'', ''c'']))"
proof -
  have "map id' (items box) = [''b'', ''a'', ''c''] \<Longrightarrow>
     sort (map id' (items box)) = [''a'', ''b'', ''c'']"
    by simp
  then show ?thesis
    using render_keys_permutation [of box' box]
    by (simp add: render_states render_keys mounted_sorted mounted_all)
qed

theorem render_order_by_id_witness:
  "mset (items \<lparr>box_isActive = False,
           items = [(WebView_new ''c'' :: unit WebView)\<lparr>uri := Some ''about:blank''\<rparr>,
                    (WebView_new ''b'')\<lparr>uri := Some ''about:blank''\<rparr>,
                    (WebView_new ''a'')\<lparr>uri := Some ''about:blank''\<rparr>]\<rparr>)
     = mset (items \<lparr>box_isActive = True,
           items = [(WebView_new ''b'' :: unit WebView)\<lparr>uri := Some ''about:blank''\<rparr>,
                    (WebView_new ''a'')\<lparr>uri := Some ''about:blank''\<rparr>,
                    (WebView_new ''c'')\<lparr>uri := Some ''about:blank''\<rparr>]\<rparr>)
   \<and> map id' (items \<lparr>box_isActive = True,
           items = [(WebView_new ''b'' :: unit WebView)\<lparr>uri := Some ''about:blank''\<rparr>,
                    (WebView_new ''a'')\<lparr>uri := Some ''about:blank''\<rparr>,
                    (WebView_new ''c'')\<lparr>uri := Some ''about:blank''\<rparr>]\<rparr>)
       = [''b'', ''a'', ''c'']
   \<and> list_all (\<lambda>w. truthy (uri w)) (items \<lparr>box_isActive = True,
           items = [(WebView_new ''b'' :: unit WebView)\<lparr>uri := Some ''about:blank''\<rparr>,
                    (WebView_new ''a'')\<lparr>uri := Some ''about:blank''\<rparr>,
                    (WebView_new ''c'')\<lparr>uri := Some ''about:blank''\<rparr>]\<rparr>)
   \<and> map child_key (div_children (WebViewBox_render \<lparr>box_isActive = False,
           items = [(WebView_new ''c'' :: unit WebView)\<lparr>uri := Some ''about:blank''\<rparr>,
                    (WebView_new ''b'')\<lparr>uri := Some ''about:blank''\<rparr>,
                    (WebView_new ''a'')\<lparr>uri := Some ''about:blank''\<rparr>]\<rparr>))
       = [''a'', ''b'', ''c'']
   \<and> mounted \<lparr>box_isActive = True,
           items = [(WebView_new ''b'' :: unit WebView)\<lparr>uri := Some ''about:blank''\<rparr>,
                    (WebView_new ''a'')\<lparr>uri := Some ''about:blank''\<rparr>,
                    (WebView_new ''c'')\<lparr>uri := Some ''about:blank''\<rparr>]\<rparr>
       = [''a'', ''b'', ''c'']"
  (is "?perm \<and> ?ids \<and> ?uris \<and> ?keys \<and> ?mounted")
proof -
  have perm: ?perm
    by (simp add: add_mset_commute)
  have ids: ?ids
    by (simp add: WebView_new_def)
  have uris: ?uris
    by (simp add: truthy_def)
  from render_order_by_id
    [of "\<lparr>box_isActive = True,
           items = [(WebView_new ''b'' :: unit WebView)\<lparr>uri := Some ''about:blank''\<rparr>,
                    (WebView_new ''a'')\<lparr>uri := Some ''about:blank''\<rparr>,
                    (WebView_new ''c'')\<lparr>uri := Some ''about:blank''\<rparr>]\<rparr>"
        "\<lparr>box_isActive = False,
           items = [(WebView_new ''c'' :: unit WebView)\<lparr>uri := Some ''about:blank''\<rparr>,
                    (WebView_new ''b'')\<lparr>uri := Some ''about:blank''\<rparr>,
                    (WebView_new ''a'')\<lparr>uri := Some ''about:blank''\<rparr>]\<rparr>"]
    perm ids uris
  show ?thesis by metis
qed

section \<open>Properties of the acquisition\<close>

lemmas event_loop = empty_heap_def fresh_def promise_at_def modify_def enqueue_def
  new_promise_def settle_def fulfil_or_adopt_def resolve_def reject_def then'_def catch'_def
  Promise_reject_def Promise_race_def fromEvent_def fromDOMRequest_def fetchScreenshot_def
  fetchThumbnail_def finish_def task_def drain.simps

lemmas promise_shapes = pending_def adopting_def settled_def left_event_def loaded_event_def

lemmas waiting_shapes = started_def loaded_first_def

lemmas cached_shapes = hit_def hit_loaded_def hit_left_def hit_loaded_left_def


text \<open>The handler leaves nine promises: the promise of \<^verbatim>\<open>requestThumbnail\<close> is
  promise 5, and the promise of the caller's \<^verbatim>\<open>then\<close> is promise 8.\<close>

lemma acquisition_started: "onLocationChange empty_heap = ((5, 8), started)"
  by (simp add: requestThumbnail_def onLocationChange_def event_loop promise_shapes
      waiting_shapes)

lemma acquisition_ids: "result = 5" "applied = 8" "heap0 = started"
  by (simp_all add: result_def applied_def heap0_def acquisition_started)

text \<open>
  A run that does capture: the tile is missing, the page ends loading, and the screenshot
  succeeds with the blob 9, which becomes the result and the thumbnail.
\<close>

lemma capture_after_miss:
  "\<exists>h. run [XhrLoad 404 0 ''Not Found'', Dom mozbrowserloadend, RequestSuccess 9] heap0 = Some h
     \<and> promise_state (promise_at h result) = Fulfilled (JObj (Blob 9))
     \<and> captures h = 1 \<and> edits h = [9]"
  by (simp add: acquisition_ids event_loop promise_shapes waiting_shapes)

subsection \<open>Runs and their invariants\<close>

lemma run_append:
  "run (es @ es') h = (case run es h of None \<Rightarrow> None | Some h' \<Rightarrow> run es' h')"
  by (induction es arbitrary: h) (simp_all split: option.split)

lemma run_invariant:
  assumes step: "\<And>h e. I h \<Longrightarrow> P e \<Longrightarrow> \<exists>h'. task e h = Some h' \<and> I h'"
    and events: "list_all P es"
    and start: "I h"
  shows "\<exists>h'. run es h = Some h' \<and> I h'"
  using events start
proof (induction es arbitrary: h)
  case Nil
  then show ?case by simp
next
  case (Cons e es)
  from Cons.prems have "P e" and rest: "list_all P es"
    by simp_all
  with step Cons.prems obtain h1 where first: "task e h = Some h1" and "I h1"
    by blast
  from Cons.IH [OF rest \<open>I h1\<close>] obtain h2 where "run es h1 = Some h2" and "I h2"
    by blast
  with first show ?case
    by simp
qed

lemma list_all_take: "list_all P es \<Longrightarrow> list_all P (take n es)"
  by (auto simp add: list_all_iff dest: in_set_takeD)

lemma take_around:
  "take n (pre @ e # post) =
     (if n \<le> length pre then take n pre else pre @ e # take (n - Suc (length pre)) post)"
  by (simp add: take_Cons' not_le less_imp_le)

subsection \<open>While the acquisition waits for the tile\<close>

lemma started_steps:
  "task (Dom mozbrowserloadend) started = Some loaded_first"
  "task (RequestSuccess b) started = Some started"
  "task (RequestError s) started = Some started"
  by (simp_all add: event_loop promise_shapes waiting_shapes)

lemma loaded_first_steps:
  "task (Dom mozbrowserloadend) loaded_first = Some loaded_first"
  "task (RequestSuccess b) loaded_first = Some loaded_first"
  "task (RequestError s) loaded_first = Some loaded_first"
  by (simp_all add: event_loop promise_shapes waiting_shapes)

lemma waiting_step:
  assumes "waiting h" and "e \<noteq> Dom mozbrowserlocationchange \<and> \<not> is_xhr e"
  shows "\<exists>h'. task e h = Some h' \<and> waiting h'"
proof (cases e)
  case (Dom ty)
  with assms show ?thesis
    by (cases ty) (auto simp add: waiting_def started_steps loaded_first_steps)
qed (use assms in \<open>auto simp add: waiting_def started_steps loaded_first_steps\<close>)

lemma waiting_run:
  assumes "list_all (\<lambda>e. e \<noteq> Dom mozbrowserlocationchange \<and> \<not> is_xhr e) pre"
  shows "\<exists>h. run pre heap0 = Some h \<and> waiting h"
proof (rule run_invariant)
  show "list_all (\<lambda>e. e \<noteq> Dom mozbrowserlocationchange \<and> \<not> is_xhr e) pre"
    by (rule assms)
  show "waiting heap0"
    by (simp add: waiting_def acquisition_ids)
qed (rule waiting_step)

lemma waiting_result:
  assumes "waiting h"
  shows "promise_state (promise_at h 5) = Pending
     \<and> captures h = 0 \<and> requests h = [] \<and> edits h = []"
  using assms by (auto simp add: waiting_def promise_at_def promise_shapes waiting_shapes)

subsection \<open>Once the tile was found\<close>

lemma waiting_hit_steps:
  "task (XhrLoad 200 B statusText) started = Some (hit B)"
  "task (XhrLoad 200 B statusText) loaded_first = Some (hit_loaded B)"
  by (simp_all add: event_loop promise_shapes waiting_shapes cached_shapes)

lemma hit_steps:
  "task (Dom mozbrowserlocationchange) (hit B) = Some (hit_left B)"
  "task (Dom mozbrowserloadend) (hit B) = Some (hit_loaded B)"
  "task (XhrLoad st r statusText) (hit B) = Some (hit B)"
  "task XhrError (hit B) = Some (hit B)"
  "task (RequestSuccess b) (hit B) = Some (hit B)"
  "task (RequestError s) (hit B) = Some (hit B)"
  by (simp_all add: event_loop promise_shapes waiting_shapes cached_shapes)

lemma hit_loaded_steps:
  "task (Dom mozbrowserlocationchange) (hit_loaded B) = Some (hit_loaded_left B)"
  "task (Dom mozbrowserloadend) (hit_loaded B) = Some (hit_loaded B)"
  "task (XhrLoad st r statusText) (hit_loaded B) = Some (hit_loaded B)"
  "task XhrError (hit_loaded B) = Some (hit_loaded B)"
  "task (RequestSuccess b) (hit_loaded B) = Some (hit_loaded B)"
  "task (RequestError s) (hit_loaded B) = Some (hit_loaded B)"
  by (simp_all add: event_loop promise_shapes waiting_shapes cached_shapes)

lemma hit_left_steps:
  "task (Dom mozbrowserlocationchange) (hit_left B) = Some (hit_left B)"
  "task (Dom mozbrowserloadend) (hit_left B) = Some (hit_loaded_left B)"
  "task (XhrLoad st r statusText) (hit_left B) = Some (hit_left B)"
  "task XhrError (hit_left B) = Some (hit_left B)"
  "task (RequestSuccess b) (hit_left B) = Some (hit_left B)"
  "task (RequestError s) (hit_left B) = Some (hit_left B)"
  by (simp_all add: event_loop promise_shapes waiting_shapes cached_shapes)

lemma hit_loaded_left_steps:
  "task (Dom mozbrowserlocationchange) (hit_loaded_left B) = Some (hit_loaded_left B)"
  "task (Dom mozbrowserloadend) (hit_loaded_left B) = Some (hit_loaded_left B)"
  "task (XhrLoad st r statusText) (hit_loaded_left B) = Some (hit_loaded_left B)"
  "task XhrError (hit_loaded_left B) = Some (hit_loaded_left B)"
  "task (RequestSuccess b) (hit_loaded_left B) = Some (hit_loaded_left B)"
  "task (RequestError s) (hit_loaded_left B) = Some (hit_loaded_left B)"
  by (simp_all add: event_loop promise_shapes waiting_shapes cached_shapes)

lemma waiting_hit:
  assumes "waiting h"
  shows "\<exists>h'. task (XhrLoad 200 B statusText) h = Some h' \<and> cached B h'"
  using assms by (auto simp add: waiting_def cached_def waiting_hit_steps)

lemma cached_step:
  assumes "cached B h"
  shows "\<exists>h'. task e h = Some h' \<and> cached B h'"
proof (cases e)
  case (Dom ty)
  with assms show ?thesis
    by (cases ty)
      (auto simp add: cached_def hit_steps hit_loaded_steps hit_left_steps
        hit_loaded_left_steps)
qed (use assms in \<open>auto simp add: cached_def hit_steps hit_loaded_steps hit_left_steps
        hit_loaded_left_steps\<close>)

lemma cached_run:
  assumes "list_all (\<lambda>e. e \<noteq> Dom mozbrowserlocationchange \<and> \<not> is_xhr e) pre"
  shows "\<exists>h. run (pre @ XhrLoad 200 B statusText # post) heap0 = Some h \<and> cached B h"
proof -
  from waiting_run [OF assms] obtain h1 where pre: "run pre heap0 = Some h1" and "waiting h1"
    by blast
  from waiting_hit [OF \<open>waiting h1\<close>] obtain h2
    where hit: "task (XhrLoad 200 B statusText) h1 = Some h2" and "cached B h2"
    by blast
  have "\<exists>h3. run post h2 = Some h3 \<and> cached B h3"
  proof (rule run_invariant)
    show "list_all (\<lambda>e. True) post"
      by (simp add: list_all_iff)
    show "cached B h2"
      by (rule \<open>cached B h2\<close>)
  qed (rule cached_step)
  then obtain h3 where post: "run post h2 = Some h3" and "cached B h3"
    by blast
  from pre hit post have "run (pre @ XhrLoad 200 B statusText # post) heap0 = Some h3"
    by (simp add: run_append)
  with \<open>cached B h3\<close> show ?thesis
    by blast
qed

lemma cached_result:
  assumes "cached B h"
  shows "promise_state (promise_at h 5) = Fulfilled (JObj (Blob B))
     \<and> captures h = 0 \<and> requests h = [] \<and> edits h = [B]"
  using assms by (auto simp add: cached_def promise_at_def promise_shapes cached_shapes)

subsection \<open>Before and after a location change that comes first\<close>















subsection \<open>The two scenarios\<close>

text \<open>
  C1. Take any run of the event loop on a started acquisition in which the request for the
  persisted tile loads with status 200 and the blob \<open>B\<close>, after events \<open>pre\<close> among which
  there is no location change (and no earlier answer to the request), and before any
  events \<open>post\<close>. The run is defined (every task ends), and at its end the promise that
  \<^verbatim>\<open>requestThumbnail\<close> returned is fulfilled with \<open>B\<close>; as \<open>post\<close> is any sequence,
  \<open>B\<close> is the result from the moment the tile is found. \<^verbatim>\<open>iframe.getScreenshot\<close> is
  never called: after every number \<open>n\<close> of events of the run, the count of its calls is 0
  and no screenshot request is pending.
\<close>

theorem cached_thumbnail_is_result:
  assumes "list_all (\<lambda>e. e \<noteq> Dom mozbrowserlocationchange \<and> \<not> is_xhr e) pre"
  shows "(\<exists>h. run (pre @ XhrLoad 200 B statusText # post) heap0 = Some h
            \<and> promise_state (promise_at h result) = Fulfilled (JObj (Blob B)))
     \<and> (\<forall>n. \<exists>h. run (take n (pre @ XhrLoad 200 B statusText # post)) heap0 = Some h
            \<and> captures h = 0 \<and> requests h = [])"
proof
  from cached_run [OF assms, of B statusText post] cached_result
  show "\<exists>h. run (pre @ XhrLoad 200 B statusText # post) heap0 = Some h
      \<and> promise_state (promise_at h result) = Fulfilled (JObj (Blob B))"
    by (auto simp add: acquisition_ids)
  show "\<forall>n. \<exists>h. run (take n (pre @ XhrLoad 200 B statusText # post)) heap0 = Some h
      \<and> captures h = 0 \<and> requests h = []"
  proof
    fix n
    show "\<exists>h. run (take n (pre @ XhrLoad 200 B statusText # post)) heap0 = Some h
        \<and> captures h = 0 \<and> requests h = []"
    proof (cases "n \<le> length pre")
      case True
      from waiting_run [OF list_all_take [OF assms, of n]] waiting_result
      have "\<exists>h. run (take n pre) heap0 = Some h \<and> captures h = 0 \<and> requests h = []"
        by blast
      with True show ?thesis
        by (simp only: take_around if_True)
    next
      case False
      from cached_run [OF assms, of B statusText "take (n - Suc (length pre)) post"] cached_result
      have "\<exists>h. run (pre @ XhrLoad 200 B statusText # take (n - Suc (length pre)) post) heap0 = Some h
          \<and> captures h = 0 \<and> requests h = []"
        by blast
      with False show ?thesis
        by (simp only: take_around if_False)
    qed
  qed
qed

theorem cached_thumbnail_is_result_witness:
  "list_all (\<lambda>e. e \<noteq> Dom mozbrowserlocationchange \<and> \<not> is_xhr e) [Dom mozbrowserloadend]
   \<and> (\<exists>h. run ([Dom mozbrowserloadend] @ XhrLoad 200 7 ''OK''
                # [Dom mozbrowserlocationchange, Dom mozbrowserloadend, RequestSuccess 9])
             heap0 = Some h
         \<and> promise_state (promise_at h result) = Fulfilled (JObj (Blob 7)))
   \<and> (\<forall>n. \<exists>h. run (take n ([Dom mozbrowserloadend] @ XhrLoad 200 7 ''OK''
                # [Dom mozbrowserlocationchange, Dom mozbrowserloadend, RequestSuccess 9]))
             heap0 = Some h
         \<and> captures h = 0 \<and> requests h = [])"
proof -
  have pre: "list_all (\<lambda>e. e \<noteq> Dom mozbrowserlocationchange \<and> \<not> is_xhr e)
      [Dom mozbrowserloadend]"
    by simp
  from cached_thumbnail_is_result [OF pre, of 7 "''OK''"
      "[Dom mozbrowserlocationchange, Dom mozbrowserloadend, RequestSuccess 9]"] pre
  show ?thesis by blast
qed




end
